theory Spec2Isabelle
  imports Main "HOL-Library.Multiset"
begin

section \<open>JavaScript values\<close>

text \<open>
  The backend receives its inputs from \<^verbatim>\<open>bodyParser.json()\<close>, so every value it
  handles is a parsed JSON value, \<^verbatim>\<open>undefined\<close> (a property that is not there), or
  something a built-in operator makes of them. \<open>Num\<close> carries the integer-valued
  numbers; numbers with a fractional part are floating point and are not modelled.
  \<open>Obj\<close> lists the own properties of an object made by \<^verbatim>\<open>JSON.parse\<close> or by an
  object literal (first binding of a name wins in \<open>map_of\<close>). \<open>Builtin\<close> is
  one of the values an object inherits from \<^verbatim>\<open>Object.prototype\<close>, carried as the
  text it turns into when it is converted to a string.
\<close>

datatype js =
    Undefined
  | Null
  | NaN
  | Bool bool
  | Num int
  | Str string
  | Arr "js list"
  | Obj "(string \<times> js) list"
  | Builtin string

datatype error = TypeError

subsection \<open>Number to string\<close>

fun digits :: "nat \<Rightarrow> string" where
  "digits n =
     (if n < 10 then [''0123456789'' ! n]
      else digits (n div 10) @ [''0123456789'' ! (n mod 10)])"

declare digits.simps [simp del]

definition show_int :: "int \<Rightarrow> string" where
  "show_int i = (if i < 0 then CHR ''-'' # digits (nat (- i)) else digits (nat i))"

subsection \<open>ToString, as a property key or an operand of +\<close>

text \<open>
  \<^verbatim>\<open>ToString\<close> of a primitive is its text. An object goes through
  \<^verbatim>\<open>ToPrimitive\<close>: an array's \<^verbatim>\<open>toString\<close> joins its elements with commas,
  \<^verbatim>\<open>null\<close> and \<^verbatim>\<open>undefined\<close> elements giving the empty string; a plain object
  answers \<^verbatim>\<open>[object Object]\<close> through the inherited \<^verbatim>\<open>toString\<close>, unless the
  parsed object has an own property of that name: a parsed value is never callable, the
  inherited \<^verbatim>\<open>valueOf\<close> returns the object itself, and the conversion throws a
  \<^verbatim>\<open>TypeError\<close>.
\<close>

fun toString :: "js \<Rightarrow> error + string"
  and array_join :: "js list \<Rightarrow> error + string" where
  "toString Undefined = Inr ''undefined''"
| "toString Null = Inr ''null''"
| "toString NaN = Inr ''NaN''"
| "toString (Bool b) = Inr (if b then ''true'' else ''false'')"
| "toString (Num n) = Inr (show_int n)"
| "toString (Str s) = Inr s"
| "toString (Builtin t) = Inr t"
| "toString (Obj ps) =
     (if map_of ps ''toString'' = None then Inr ''[object Object]'' else Inl TypeError)"
| "toString (Arr xs) = array_join xs"
| "array_join [] = Inr ''''"
| "array_join (x # xs) =
     (case (if x = Undefined \<or> x = Null then Inr '''' else toString x) of
        Inl e \<Rightarrow> Inl e
      | Inr a \<Rightarrow>
          (if xs = [] then Inr a
           else (case array_join xs of
                   Inl e \<Rightarrow> Inl e
                 | Inr b \<Rightarrow> Inr (a @ '','' @ b))))"

subsection \<open>Truthiness, property reads, addition\<close>

fun truthy :: "js \<Rightarrow> bool" where
  "truthy Undefined = False"
| "truthy Null = False"
| "truthy NaN = False"
| "truthy (Bool b) = b"
| "truthy (Num n) = (n \<noteq> 0)"
| "truthy (Str s) = (s \<noteq> [])"
| "truthy (Arr xs) = True"
| "truthy (Obj ps) = True"
| "truthy (Builtin t) = True"

text \<open>
  What every plain object inherits from \<^verbatim>\<open>Object.prototype\<close> in Node: eleven
  functions and the \<^verbatim>\<open>__proto__\<close> accessor, which answers the prototype object
  itself.
\<close>

definition objectPrototype :: "(string \<times> js) list" where
  "objectPrototype =
     [(''constructor'', Builtin ''function Object() { [native code] }''),
      (''__defineGetter__'', Builtin ''function __defineGetter__() { [native code] }''),
      (''__defineSetter__'', Builtin ''function __defineSetter__() { [native code] }''),
      (''hasOwnProperty'', Builtin ''function hasOwnProperty() { [native code] }''),
      (''__lookupGetter__'', Builtin ''function __lookupGetter__() { [native code] }''),
      (''__lookupSetter__'', Builtin ''function __lookupSetter__() { [native code] }''),
      (''isPrototypeOf'', Builtin ''function isPrototypeOf() { [native code] }''),
      (''propertyIsEnumerable'', Builtin ''function propertyIsEnumerable() { [native code] }''),
      (''toString'', Builtin ''function toString() { [native code] }''),
      (''valueOf'', Builtin ''function valueOf() { [native code] }''),
      (''__proto__'', Builtin ''[object Object]''),
      (''toLocaleString'', Builtin ''function toLocaleString() { [native code] }'')]"

text \<open>
  \<open>get_prop v k\<close> is \<^verbatim>\<open>v[k]\<close> for a string \<open>k\<close>. Reading a property of
  \<^verbatim>\<open>null\<close> or \<^verbatim>\<open>undefined\<close> throws. A plain object answers with its own
  property, else with the inherited one, else \<^verbatim>\<open>undefined\<close>. On arrays, strings,
  numbers and booleans the program reads only the names \<^verbatim>\<open>place\<close>,
  \<^verbatim>\<open>athleteId\<close>, \<^verbatim>\<open>time\<close>, \<^verbatim>\<open>role\<close>, \<^verbatim>\<open>raceId\<close>, \<^verbatim>\<open>results\<close>,
  \<^verbatim>\<open>email\<close>, \<^verbatim>\<open>password\<close>, \<^verbatim>\<open>name\<close> and \<^verbatim>\<open>country\<close>, which none
  of their prototypes defines: the answer is \<^verbatim>\<open>undefined\<close>.
\<close>

fun get_prop :: "js \<Rightarrow> string \<Rightarrow> error + js" where
  "get_prop Undefined k = Inl TypeError"
| "get_prop Null k = Inl TypeError"
| "get_prop (Obj ps) k =
     (case map_of ps k of
        Some v \<Rightarrow> Inr v
      | None \<Rightarrow> (case map_of objectPrototype k of Some b \<Rightarrow> Inr b | None \<Rightarrow> Inr Undefined))"
| "get_prop v k = Inr Undefined"

text \<open>\<^verbatim>\<open>v[key]\<close> for any value \<open>key\<close>: the key is converted to a string first.\<close>

definition get_member :: "js \<Rightarrow> js \<Rightarrow> error + js" where
  "get_member v key =
     (case toString key of Inl e \<Rightarrow> Inl e | Inr k \<Rightarrow> get_prop v k)"

text \<open>
  The operator \<^verbatim>\<open>+\<close>: both operands are made primitive (an object, an array or a
  built-in becomes its string); if either is then a string the two texts are
  concatenated, else both are read as numbers and added, \<^verbatim>\<open>undefined\<close> reading as
  \<^verbatim>\<open>NaN\<close>.
\<close>

fun toPrimitive :: "js \<Rightarrow> error + js" where
  "toPrimitive (Arr xs) = map_sum id Str (toString (Arr xs))"
| "toPrimitive (Obj ps) = map_sum id Str (toString (Obj ps))"
| "toPrimitive (Builtin t) = Inr (Str t)"
| "toPrimitive v = Inr v"

fun is_Str :: "js \<Rightarrow> bool" where
  "is_Str (Str s) = True"
| "is_Str v = False"

fun toNumber :: "js \<Rightarrow> int option" where
  "toNumber (Num n) = Some n"
| "toNumber (Bool b) = Some (if b then 1 else 0)"
| "toNumber Null = Some 0"
| "toNumber v = None"

definition js_add :: "js \<Rightarrow> js \<Rightarrow> error + js" where
  "js_add a b =
     (case toPrimitive a of
        Inl e \<Rightarrow> Inl e
      | Inr pa \<Rightarrow>
          (case toPrimitive b of
             Inl e \<Rightarrow> Inl e
           | Inr pb \<Rightarrow>
               (if is_Str pa \<or> is_Str pb then
                  (case (toString pa, toString pb) of
                     (Inr sa, Inr sb) \<Rightarrow> Inr (Str (sa @ sb))
                   | _ \<Rightarrow> Inl TypeError)
                else
                  (case (toNumber pa, toNumber pb) of
                     (Some x, Some y) \<Rightarrow> Inr (Num (x + y))
                   | _ \<Rightarrow> Inr NaN))))"

section \<open>pointsEngine.js\<close>

definition placePoints :: js where
  "placePoints =
     Obj [(''1'', Num 100), (''2'', Num 80), (''3'', Num 65), (''4'', Num 55),
          (''5'', Num 45), (''6'', Num 40), (''7'', Num 36), (''8'', Num 32)]"

text \<open>
  \<^verbatim>\<open>let pts = 0; if (placePoints[result.place]) pts += placePoints[result.place];
  return pts;\<close>
\<close>

definition calculatePointsForResult :: "js \<Rightarrow> error + js" where
  "calculatePointsForResult result =
     (case get_prop result ''place'' of
        Inl e \<Rightarrow> Inl e
      | Inr place \<Rightarrow>
          (case get_member placePoints place of
             Inl e \<Rightarrow> Inl e
           | Inr v \<Rightarrow> if truthy v then js_add (Num 0) v else Inr (Num 0)))"

section \<open>What SQLite stores\<close>

text \<open>
  A value in a table: \<^verbatim>\<open>NULL\<close>, an integer or text. A number that is not an
  integer is a double in SQLite; the model does not compute with doubles and keeps
  such a value as the text of its literal, which, like the double, equals no integer.
\<close>

datatype sqlval = SqlNull | SqlInt int | SqlText string

subsection \<open>Numeric literals\<close>

text \<open>
  The text SQLite accepts as a number (\<^verbatim>\<open>sqlite3AtoF\<close>): optional white space, an
  optional sign, digits with an optional decimal point, an optional exponent with at
  least one digit, optional white space, and nothing else; at least one digit before
  or after the point. \<open>number_literal\<close> answers whether the literal is a plain
  integer (no point, no exponent), its digits as a signed integer \<open>m\<close> and the power
  of ten \<open>e\<close> to scale them by: the value is \<open>m * 10 ^ e\<close>.
\<close>

definition is_space :: "char \<Rightarrow> bool" where
  "is_space c = (c \<in> set [CHR '' '', CHR 0x09, CHR 0x0A, CHR 0x0B, CHR 0x0C, CHR 0x0D])"

definition is_digit :: "char \<Rightarrow> bool" where
  "is_digit c = (c \<in> set ''0123456789'')"

definition digit_value :: "char \<Rightarrow> nat" where
  "digit_value c = length (takeWhile (\<lambda>d. d \<noteq> c) ''0123456789'')"

definition decimal :: "string \<Rightarrow> int" where
  "decimal ds = foldl (\<lambda>n c. 10 * n + int (digit_value c)) 0 ds"

definition strip_sign :: "string \<Rightarrow> bool \<times> string" where
  "strip_sign s =
     (case s of
        [] \<Rightarrow> (False, [])
      | c # cs \<Rightarrow>
          if c = CHR ''-'' then (True, cs)
          else if c = CHR ''+'' then (False, cs)
          else (False, s))"

definition number_literal :: "string \<Rightarrow> (bool \<times> int \<times> int) option" where
  "number_literal s =
     (let (neg, s2) = strip_sign (dropWhile is_space s);
          ds = takeWhile is_digit s2;
          s3 = dropWhile is_digit s2;
          point = (s3 \<noteq> [] \<and> hd s3 = CHR ''.'');
          fs = (if point then takeWhile is_digit (tl s3) else []);
          s4 = (if point then dropWhile is_digit (tl s3) else s3);
          expo = (s4 \<noteq> [] \<and> (hd s4 = CHR ''e'' \<or> hd s4 = CHR ''E''));
          (eneg, s5) = (if expo then strip_sign (tl s4) else (False, s4));
          es = (if expo then takeWhile is_digit s5 else []);
          s6 = (if expo then dropWhile is_digit s5 else s5);
          m = decimal (ds @ fs);
          e = decimal es
      in if ds @ fs \<noteq> [] \<and> (if expo then es \<noteq> [] else True) \<and> dropWhile is_space s6 = []
         then Some (\<not> point \<and> \<not> expo, if neg then - m else m,
                    (if eneg then - e else e) - int (length fs))
         else None)"

text \<open>
  The integer a literal stands for, when SQLite stores it as an \<^verbatim>\<open>INTEGER\<close>: a plain
  integer literal within 64 bits; a literal with a point or an exponent is read as a
  double first and stored as an integer when the double is one. The model reads the
  literal exactly and accepts integers up to \<open>2 ^ 53\<close>, where exact value and double
  agree. (A literal whose exact value is no integer but lies within a rounding error
  of one, which takes more than 15 significant digits, is an integer to SQLite and
  text to the model.)
\<close>

definition integer_literal :: "string \<Rightarrow> int option" where
  "integer_literal s =
     (case number_literal s of
        None \<Rightarrow> None
      | Some (plain, m, e) \<Rightarrow>
          if m = 0 then Some 0
          else if 19 < e then None
          else if 0 \<le> e then
            (let n = m * 10 ^ nat e in
             if plain then (if - (2 ^ 63) \<le> n \<and> n < 2 ^ 63 then Some n else None)
             else (if \<bar>n\<bar> \<le> 2 ^ 53 then Some n else None))
          else if m mod 10 ^ nat (- e) = 0 \<and> \<bar>m div 10 ^ nat (- e)\<bar> \<le> 2 ^ 53
            then Some (m div 10 ^ nat (- e))
          else None)"

subsection \<open>Column affinity\<close>

text \<open>
  A column declared \<^verbatim>\<open>INTEGER\<close> stores text that is a numeric literal as the
  number. The \<^verbatim>\<open>REAL\<close> column \<^verbatim>\<open>time\<close> does the same and holds the number as a
  double; the model keeps the number. A column declared \<^verbatim>\<open>TEXT\<close> stores a number
  as its text.
\<close>

definition numeric_affinity :: "sqlval \<Rightarrow> sqlval" where
  "numeric_affinity v =
     (case v of
        SqlText s \<Rightarrow> (case integer_literal s of Some n \<Rightarrow> SqlInt n | None \<Rightarrow> SqlText s)
      | _ \<Rightarrow> v)"

text \<open>
  The driver binds a number within 32 bits as an integer and a larger one as a
  double, whose text has a fraction part: \<^verbatim>\<open>2147483648.0\<close> (so up to fifteen
  digits; beyond, SQLite writes an exponent, which is not modelled).
\<close>

definition text_affinity :: "sqlval \<Rightarrow> sqlval" where
  "text_affinity v =
     (case v of
        SqlInt n \<Rightarrow>
          SqlText (if - (2 ^ 31) \<le> n \<and> n < 2 ^ 31 then show_int n else show_int n @ ''.0'')
      | _ \<Rightarrow> v)"

subsection \<open>Binding a parameter\<close>

text \<open>
  What the \<^verbatim>\<open>sqlite3\<close> driver binds for a JavaScript value: a string as text, a
  number as a number, a boolean as 0 or 1, \<^verbatim>\<open>null\<close> as \<^verbatim>\<open>NULL\<close>; \<^verbatim>\<open>undefined\<close>
  is left unbound, which is \<^verbatim>\<open>NULL\<close>, and so is \<^verbatim>\<open>NaN\<close> to SQLite. Any other
  object is bound as the text of its \<^verbatim>\<open>ToString\<close>, and an exception of that
  conversion reaches the caller of \<^verbatim>\<open>run\<close>.
\<close>

fun bind_param :: "js \<Rightarrow> error + sqlval" where
  "bind_param Undefined = Inr SqlNull"
| "bind_param Null = Inr SqlNull"
| "bind_param NaN = Inr SqlNull"
| "bind_param (Bool b) = Inr (SqlInt (if b then 1 else 0))"
| "bind_param (Num n) = Inr (SqlInt n)"
| "bind_param (Str s) = Inr (SqlText s)"
| "bind_param v = map_sum id SqlText (toString v)"

text \<open>The value a column holds after a parameter is bound to it.\<close>

definition stored_number :: "js \<Rightarrow> error + sqlval" where
  "stored_number v = map_sum id numeric_affinity (bind_param v)"

definition stored_text :: "js \<Rightarrow> error + sqlval" where
  "stored_text v = map_sum id text_affinity (bind_param v)"

section \<open>The database\<close>

text \<open>
  The tables of \<^verbatim>\<open>server.js\<close> that the modelled handlers read or write. The rows
  of \<^verbatim>\<open>athletes\<close>, \<^verbatim>\<open>results\<close> and \<^verbatim>\<open>fantasy_scores\<close> hold what SQLite
  stores. The \<^verbatim>\<open>users\<close> table is written by registration and the bootstrap and
  read only for its \<^verbatim>\<open>UNIQUE\<close> address: its rows keep the address and the name as
  the handler passes them. Every \<^verbatim>\<open>id\<close> is an
  \<^verbatim>\<open>INTEGER PRIMARY KEY AUTOINCREMENT\<close>: the table's counter in
  \<^verbatim>\<open>sqlite_sequence\<close> is kept beside the table. Foreign keys are declared but
  SQLite does not enforce them unless asked to, and the server never asks.
\<close>

record user_row =
  u_id :: int
  u_email :: js
  u_password :: string
  u_name :: js
  u_role :: string

record athlete_row =
  a_id :: int
  a_name :: sqlval
  a_country :: sqlval

record result_row =
  r_id :: int
  r_raceId :: sqlval
  r_athleteId :: sqlval
  r_place :: sqlval
  r_time :: sqlval
  r_points :: sqlval

record score_row =
  fs_id :: int
  fs_athleteId :: sqlval
  fs_raceId :: sqlval
  fs_points :: sqlval

record store =
  users :: "user_row list"
  users_seq :: int
  athletes :: "athlete_row list"
  athletes_seq :: int
  results :: "result_row list"
  results_seq :: int
  fantasy_scores :: "score_row list"
  fantasy_scores_seq :: int

text \<open>
  \<^verbatim>\<open>AUTOINCREMENT\<close>: the new id is one more than the largest id the table has ever
  held.
\<close>

definition next_id :: "int list \<Rightarrow> int \<Rightarrow> int" where
  "next_id ids seq = fold max ids seq + 1"

text \<open>
  The inserts take the values as the columns hold them: \<^verbatim>\<open>raceId\<close>,
  \<^verbatim>\<open>athleteId\<close>, \<^verbatim>\<open>place\<close> and \<^verbatim>\<open>points\<close> are \<^verbatim>\<open>INTEGER\<close> columns,
  \<^verbatim>\<open>time\<close> is \<^verbatim>\<open>REAL\<close>, \<^verbatim>\<open>name\<close> and \<^verbatim>\<open>country\<close> are \<^verbatim>\<open>TEXT\<close>.
\<close>

definition insert_result ::
  "sqlval \<Rightarrow> sqlval \<Rightarrow> sqlval \<Rightarrow> sqlval \<Rightarrow> sqlval \<Rightarrow> store \<Rightarrow> store" where
  "insert_result raceId athleteId place time points s =
     (let i = next_id (map r_id (results s)) (results_seq s) in
      s\<lparr>results := results s @
           [\<lparr>r_id = i, r_raceId = raceId, r_athleteId = athleteId, r_place = place,
             r_time = time, r_points = points\<rparr>],
        results_seq := i\<rparr>)"

definition insert_fantasy_score :: "sqlval \<Rightarrow> sqlval \<Rightarrow> sqlval \<Rightarrow> store \<Rightarrow> store" where
  "insert_fantasy_score athleteId raceId points s =
     (let i = next_id (map fs_id (fantasy_scores s)) (fantasy_scores_seq s) in
      s\<lparr>fantasy_scores := fantasy_scores s @
           [\<lparr>fs_id = i, fs_athleteId = athleteId, fs_raceId = raceId, fs_points = points\<rparr>],
        fantasy_scores_seq := i\<rparr>)"

definition insert_athlete :: "sqlval \<Rightarrow> sqlval \<Rightarrow> store \<Rightarrow> store \<times> int" where
  "insert_athlete name country s =
     (let i = next_id (map a_id (athletes s)) (athletes_seq s) in
      (s\<lparr>athletes := athletes s @ [\<lparr>a_id = i, a_name = name, a_country = country\<rparr>],
         athletes_seq := i\<rparr>, i))"

text \<open>
  \<^verbatim>\<open>INSERT INTO users\<close>: \<^verbatim>\<open>email\<close> is \<^verbatim>\<open>UNIQUE\<close>, so the statement fails
  when a row already holds the address (\<^verbatim>\<open>NULL\<close> never collides). The answer is
  the new store and \<^verbatim>\<open>this.lastID\<close>.
\<close>

definition insert_user :: "js \<Rightarrow> string \<Rightarrow> js \<Rightarrow> string \<Rightarrow> store \<Rightarrow> (store \<times> int) option" where
  "insert_user email password name role s =
     (if email \<noteq> Null \<and> email \<noteq> Undefined \<and> email \<in> set (map u_email (users s)) then None
      else
        (let i = next_id (map u_id (users s)) (users_seq s) in
         Some (s\<lparr>users := users s @
                  [\<lparr>u_id = i, u_email = email, u_password = password, u_name = name,
                    u_role = role\<rparr>],
                users_seq := i\<rparr>, i)))"

section \<open>server.js\<close>

datatype response = Response (status: nat) (payload: js)

definition message :: "string \<Rightarrow> js" where
  "message m = Obj [(''message'', Str m)]"

record request =
  authorization :: "string option"
  body :: js

subsection \<open>Bootstrap of the default admin\<close>

text \<open>
  At start-up the server inserts the default admin unless a row with its address is
  there. \<open>h\<close> is the bcrypt hash of the default password.
\<close>

definition bootstrap :: "string \<Rightarrow> store \<Rightarrow> store" where
  "bootstrap h s =
     (if Str ''admin@sbx.local'' \<in> set (map u_email (users s)) then s
      else
        (case insert_user (Str ''admin@sbx.local'') h (Str ''Administrator'') ''admin'' s of
           None \<Rightarrow> s
         | Some (s', i) \<Rightarrow> s'))"

subsection \<open>Registration\<close>

text \<open>
  \<^verbatim>\<open>INSERT INTO users (email,password,name)\<close> names no role: the row takes the
  column's \<^verbatim>\<open>DEFAULT 'user'\<close>. \<open>hash\<close> is \<^verbatim>\<open>bcrypt.hash(_, 10)\<close>, which rejects
  what it cannot hash; the handler then throws before any statement is issued.
  \<open>generateToken\<close> is \<^verbatim>\<open>jwt.sign\<close> with the server's secret.
\<close>

definition js_or :: "js \<Rightarrow> js \<Rightarrow> js" where
  "js_or a b = (if truthy a then a else b)"

definition register ::
  "(js \<Rightarrow> error + string) \<Rightarrow> (js \<Rightarrow> string) \<Rightarrow> store \<Rightarrow> js \<Rightarrow> error + (store \<times> response)" where
  "register hash generateToken s b =
     (case get_prop b ''email'' of Inl e \<Rightarrow> Inl e | Inr email \<Rightarrow>
      (case get_prop b ''password'' of Inl e \<Rightarrow> Inl e | Inr password \<Rightarrow>
       (case get_prop b ''name'' of Inl e \<Rightarrow> Inl e | Inr name \<Rightarrow>
        (if \<not> truthy email \<or> \<not> truthy password then
           Inr (s, Response 400 (message ''Email + password required''))
         else
           (case hash password of Inl e \<Rightarrow> Inl e | Inr h \<Rightarrow>
            (case insert_user email h (js_or name (Str [])) ''user'' s of
               None \<Rightarrow>
                 Inr (s, Response 400
                          (message ''SQLITE_CONSTRAINT: UNIQUE constraint failed: users.email''))
             | Some (s', lastID) \<Rightarrow>
                 Inr (s', Response 200
                           (Obj [(''token'',
                                  Str (generateToken
                                         (Obj [(''id'', Num lastID), (''email'', email),
                                               (''role'', Str ''user'')])))]))))))))"

text \<open>
  A sequence of registration calls. A call that throws has issued no statement, so
  the next call finds the store as it was.
\<close>

fun register_all ::
  "(js \<Rightarrow> error + string) \<Rightarrow> (js \<Rightarrow> string) \<Rightarrow> store \<Rightarrow> js list \<Rightarrow> store" where
  "register_all hash generateToken s [] = s"
| "register_all hash generateToken s (b # bs) =
     register_all hash generateToken
       (case register hash generateToken s b of Inl e \<Rightarrow> s | Inr (s', resp) \<Rightarrow> s') bs"

subsection \<open>Token and role middleware\<close>





subsection \<open>Athletes\<close>

text \<open>
  The handler of \<^verbatim>\<open>POST /api/athletes\<close>, behind the two middlewares: the only
  statement of the server that writes the athletes table. No constraint of the table
  can make the insert fail.
\<close>

definition post_athletes :: "store \<Rightarrow> js \<Rightarrow> error + (store \<times> response)" where
  "post_athletes s b =
     (case get_prop b ''name'' of Inl e \<Rightarrow> Inl e | Inr name \<Rightarrow>
      (case get_prop b ''country'' of Inl e \<Rightarrow> Inl e | Inr country \<Rightarrow>
       (case stored_text name of Inl e \<Rightarrow> Inl e | Inr name' \<Rightarrow>
        (case stored_text country of Inl e \<Rightarrow> Inl e | Inr country' \<Rightarrow>
         (case insert_athlete name' country' s of
            (s', lastID) \<Rightarrow>
              Inr (s', Response 200
                        (Obj [(''id'', Num lastID), (''name'', name), (''country'', country)])))))))"

subsection \<open>Results\<close>

fun isArray :: "js \<Rightarrow> bool" where
  "isArray (Arr xs) = True"
| "isArray v = False"

fun elements :: "js \<Rightarrow> js list" where
  "elements (Arr xs) = xs"
| "elements v = []"

text \<open>
  The body of \<^verbatim>\<open>results.forEach\<close>, entry after entry: the points, then
  \<^verbatim>\<open>stmt.run([raceId, r.athleteId, r.place, r.time || null, pts])\<close>, whose
  parameters are bound in this order, then the insert into \<^verbatim>\<open>fantasy_scores\<close> of
  three of the same values. An exception leaves the loop and the handler; what the
  statements queued before it do to the database depends on the driver and is not
  modelled.
\<close>

fun forEach_result :: "js \<Rightarrow> js list \<Rightarrow> store \<Rightarrow> error + store" where
  "forEach_result raceId [] s = Inr s"
| "forEach_result raceId (r # rs) s =
     (case calculatePointsForResult r of Inl e \<Rightarrow> Inl e | Inr pts \<Rightarrow>
      (case get_prop r ''athleteId'' of Inl e \<Rightarrow> Inl e | Inr athleteId \<Rightarrow>
       (case get_prop r ''place'' of Inl e \<Rightarrow> Inl e | Inr place \<Rightarrow>
        (case get_prop r ''time'' of Inl e \<Rightarrow> Inl e | Inr time \<Rightarrow>
         (case stored_number raceId of Inl e \<Rightarrow> Inl e | Inr raceId' \<Rightarrow>
          (case stored_number athleteId of Inl e \<Rightarrow> Inl e | Inr athleteId' \<Rightarrow>
           (case stored_number place of Inl e \<Rightarrow> Inl e | Inr place' \<Rightarrow>
            (case stored_number (js_or time Null) of Inl e \<Rightarrow> Inl e | Inr time' \<Rightarrow>
             (case stored_number pts of Inl e \<Rightarrow> Inl e | Inr pts' \<Rightarrow>
                forEach_result raceId rs
                  (insert_fantasy_score athleteId' raceId' pts'
                     (insert_result raceId' athleteId' place' time' pts' s)))))))))))"

text \<open>The handler of \<^verbatim>\<open>POST /api/results\<close>, behind the two middlewares.\<close>

definition post_results :: "store \<Rightarrow> js \<Rightarrow> error + (store \<times> response)" where
  "post_results s b =
     (case get_prop b ''raceId'' of Inl e \<Rightarrow> Inl e | Inr raceId \<Rightarrow>
      (case get_prop b ''results'' of Inl e \<Rightarrow> Inl e | Inr rs \<Rightarrow>
       (if \<not> truthy raceId \<or> \<not> isArray rs then
          Inr (s, Response 400 (message ''raceId + results[] required''))
        else
          (case forEach_result raceId (elements rs) s of
             Inl e \<Rightarrow> Inl e
           | Inr s' \<Rightarrow> Inr (s', Response 200 (message ''Results stored and points calculated''))))))"


subsection \<open>Standings\<close>

record standing =
  st_athleteId :: int
  st_name :: sqlval
  st_country :: sqlval
  st_totalPoints :: int

text \<open>
  \<^verbatim>\<open>FROM athletes a LEFT JOIN fantasy_scores fs ON fs.athleteId = a.id\<close>: every
  athlete with each of its score rows, or once with none. Both columns are
  \<^verbatim>\<open>INTEGER\<close>, so the comparison converts nothing: a stored value equals an id
  when it is that integer; \<^verbatim>\<open>NULL\<close> and text equal none.
\<close>

definition join_rows :: "score_row list \<Rightarrow> athlete_row \<Rightarrow> (athlete_row \<times> score_row option) list" where
  "join_rows fss a =
     (case filter (\<lambda>f. fs_athleteId f = SqlInt (a_id a)) fss of
        [] \<Rightarrow> [(a, None)]
      | f # fs \<Rightarrow> map (\<lambda>f. (a, Some f)) (f # fs))"

definition left_join :: "store \<Rightarrow> (athlete_row \<times> score_row option) list" where
  "left_join s = concat (map (join_rows (fantasy_scores s)) (athletes s))"

text \<open>
  \<^verbatim>\<open>SUM\<close> skips \<^verbatim>\<open>NULL\<close> and is \<^verbatim>\<open>NULL\<close> when nothing is left. An integer
  counts as itself. Text in an \<^verbatim>\<open>INTEGER\<close> column is text that is no number; it
  counts by its numeric prefix, which is 0 for every text \<open>calculatePointsForResult\<close>
  returns (each begins \<^verbatim>\<open>0f\<close> or \<^verbatim>\<open>0[\<close>), and the model reads all text as 0.
\<close>

fun sql_num :: "sqlval \<Rightarrow> int" where
  "sql_num (SqlInt n) = n"
| "sql_num v = 0"

definition sql_sum :: "sqlval list \<Rightarrow> int option" where
  "sql_sum vs =
     (let ws = filter (\<lambda>v. v \<noteq> SqlNull) vs in
      if ws = [] then None else Some (sum_list (map sql_num ws)))"

definition ifnull :: "int option \<Rightarrow> int \<Rightarrow> int" where
  "ifnull x d = (case x of None \<Rightarrow> d | Some v \<Rightarrow> v)"

text \<open>
  One output row for the group of joined rows with \<^verbatim>\<open>a.id = g\<close>; name and
  country are read from a row of the group.
\<close>

definition joined_points :: "athlete_row \<times> score_row option \<Rightarrow> sqlval" where
  "joined_points x = (case snd x of None \<Rightarrow> SqlNull | Some f \<Rightarrow> fs_points f)"

definition group_row :: "(athlete_row \<times> score_row option) list \<Rightarrow> int \<Rightarrow> standing" where
  "group_row joined g =
     (let grp = filter (\<lambda>x. a_id (fst x) = g) joined;
          a = fst (hd grp)
      in \<lparr>st_athleteId = g, st_name = a_name a, st_country = a_country a,
          st_totalPoints = ifnull (sql_sum (map joined_points grp)) 0\<rparr>)"

text \<open>
  The query of \<^verbatim>\<open>GET /api/standings\<close>: join, \<^verbatim>\<open>GROUP BY a.id\<close>,
  \<^verbatim>\<open>ORDER BY totalPoints DESC\<close>. SQL leaves the order among equal totals open;
  the model keeps them in the order of the groups.
\<close>

definition get_standings :: "store \<Rightarrow> standing list" where
  "get_standings s =
     (let joined = left_join s;
          groups = remdups (map (\<lambda>x. a_id (fst x)) joined)
      in sort_key (\<lambda>e. - st_totalPoints e) (map (group_row joined) groups))"


section \<open>The claims' own terms\<close>

text \<open>
  The total of athlete \<open>i\<close> in the words of the claim, read off the ledger by itself:
  over all score rows, the points of every row that refers to athlete \<open>i\<close>. A row
  refers to an athlete when its athlete column holds that integer, and its points are
  the integer its points column holds; a row whose points are no integer has no
  number of points to add.
\<close>

fun points_for :: "int \<Rightarrow> score_row \<Rightarrow> int" where
  "points_for i f =
     (case (fs_athleteId f, fs_points f) of
        (SqlInt a, SqlInt p) \<Rightarrow> if a = i then p else 0
      | _ \<Rightarrow> 0)"

definition ledger_total :: "store \<Rightarrow> int \<Rightarrow> int" where
  "ledger_total s i = (\<Sum>f\<leftarrow>fantasy_scores s. points_for i f)"

text \<open>The claim's entry for one athlete: its identity and that total.\<close>

definition standing_of :: "store \<Rightarrow> athlete_row \<Rightarrow> standing" where
  "standing_of s a =
     \<lparr>st_athleteId = a_id a, st_name = a_name a, st_country = a_country a,
      st_totalPoints = ledger_total s (a_id a)\<rparr>"

text \<open>What a result row and a score row are compared by: athlete, race and points.\<close>

definition result_key :: "result_row \<Rightarrow> sqlval \<times> sqlval \<times> sqlval" where
  "result_key r = (r_athleteId r, r_raceId r, r_points r)"

definition score_key :: "score_row \<Rightarrow> sqlval \<times> sqlval \<times> sqlval" where
  "score_key f = (fs_athleteId f, fs_raceId f, fs_points f)"

text \<open>
  The athlete, race and points that belong to entry \<open>e\<close> of a batch for race
  \<open>raceId\<close>: the entry's athlete, the batch's race and the points the scoring
  function gives the entry, each as an \<^verbatim>\<open>INTEGER\<close> column stores it.
\<close>

definition entry_key :: "js \<Rightarrow> js \<Rightarrow> (sqlval \<times> sqlval \<times> sqlval) option" where
  "entry_key raceId e =
     (case (get_prop e ''athleteId'', calculatePointsForResult e) of
        (Inr athleteId, Inr pts) \<Rightarrow>
          (case (stored_number athleteId, stored_number raceId, stored_number pts) of
             (Inr a, Inr r, Inr p) \<Rightarrow> Some (a, r, p)
           | _ \<Rightarrow> None)
      | _ \<Rightarrow> None)"

text \<open>The database after the \<^verbatim>\<open>CREATE TABLE\<close> statements, before any insert.\<close>

definition empty_store :: store where
  "empty_store =
     \<lparr>users = [], users_seq = 0, athletes = [], athletes_seq = 0, results = [],
      results_seq = 0, fantasy_scores = [], fantasy_scores_seq = 0\<rparr>"

text \<open>
  A small database: three athletes, two races scored, the third athlete without a
  score.
\<close>

definition example_store :: store where
  "example_store =
     \<lparr>users = [], users_seq = 0,
      athletes =
        [\<lparr>a_id = 1, a_name = SqlText ''Jane Doe'', a_country = SqlText ''USA''\<rparr>,
         \<lparr>a_id = 2, a_name = SqlText ''Eva Moser'', a_country = SqlText ''AUT''\<rparr>,
         \<lparr>a_id = 3, a_name = SqlText ''Lea Roy'', a_country = SqlText ''FRA''\<rparr>],
      athletes_seq = 3,
      results =
        [\<lparr>r_id = 1, r_raceId = SqlInt 1, r_athleteId = SqlInt 1, r_place = SqlInt 2,
          r_time = SqlNull, r_points = SqlInt 80\<rparr>,
         \<lparr>r_id = 2, r_raceId = SqlInt 1, r_athleteId = SqlInt 2, r_place = SqlInt 1,
          r_time = SqlNull, r_points = SqlInt 100\<rparr>,
         \<lparr>r_id = 3, r_raceId = SqlInt 2, r_athleteId = SqlInt 1, r_place = SqlInt 3,
          r_time = SqlNull, r_points = SqlInt 65\<rparr>],
      results_seq = 3,
      fantasy_scores =
        [\<lparr>fs_id = 1, fs_athleteId = SqlInt 1, fs_raceId = SqlInt 1, fs_points = SqlInt 80\<rparr>,
         \<lparr>fs_id = 2, fs_athleteId = SqlInt 2, fs_raceId = SqlInt 1, fs_points = SqlInt 100\<rparr>,
         \<lparr>fs_id = 3, fs_athleteId = SqlInt 1, fs_raceId = SqlInt 2, fs_points = SqlInt 65\<rparr>],
      fantasy_scores_seq = 3\<rparr>"

section \<open>Decimal keys\<close>

lemma digits_not_Nil: "digits n \<noteq> []"
  by (induction n rule: digits.induct) (subst digits.simps, simp)

lemma digits_below_ten: "n < 10 \<Longrightarrow> digits n = [''0123456789'' ! n]"
  by (subst digits.simps) simp

lemma digits_from_ten: "\<not> n < 10 \<Longrightarrow> 2 \<le> length (digits n)"
proof -
  assume "\<not> n < 10"
  then have "digits n = digits (n div 10) @ [''0123456789'' ! (n mod 10)]"
    by (subst digits.simps) simp
  moreover have "1 \<le> length (digits (n div 10))"
    using digits_not_Nil [of "n div 10"] by (cases "digits (n div 10)") simp_all
  ultimately show ?thesis by simp
qed

lemma hd_digits: "hd (digits n) \<in> set ''0123456789''"
proof (induction n rule: digits.induct)
  case (1 n)
  show ?case
  proof (cases "n < 10")
    case True
    have "''0123456789'' ! n \<in> set ''0123456789''"
      by (rule nth_mem) (use True in simp)
    then show ?thesis by (simp add: digits_below_ten [OF True])
  next
    case False
    then show ?thesis
      using 1 digits_not_Nil [of "n div 10"] by (subst digits.simps) simp
  qed
qed

lemma hd_show_int: "show_int p \<noteq> [] \<and> hd (show_int p) \<in> set ''-0123456789''"
  using hd_digits [of "nat p"] digits_not_Nil [of "nat p"] by (auto simp: show_int_def)

lemma inherited_first_char:
  "map_of objectPrototype k = Some v \<Longrightarrow> k \<noteq> [] \<and> hd k \<notin> set ''-0123456789''"
  by (auto simp: objectPrototype_def split: if_splits)

lemma show_int_not_inherited: "map_of objectPrototype (show_int p) = None"
  using inherited_first_char [of "show_int p"] hd_show_int [of p]
  by (cases "map_of objectPrototype (show_int p)") auto

lemma show_int_not_own:
  assumes "p < 1 \<or> 8 < p"
  shows "map_of [(''1'', Num 100), (''2'', Num 80), (''3'', Num 65), (''4'', Num 55),
                 (''5'', Num 45), (''6'', Num 40), (''7'', Num 36), (''8'', Num 32)]
           (show_int p) = None"
proof (cases "p < 0")
  case True
  then show ?thesis by (simp add: show_int_def)
next
  case False
  show ?thesis
  proof (cases "nat p < 10")
    case True
    with False assms have "p = 0 \<or> p = 9" by arith
    then show ?thesis by (auto simp: show_int_def digits_below_ten)
  next
    case long: False
    from digits_from_ten [OF long] obtain a b cs where "digits (nat p) = a # b # cs"
      by (cases "digits (nat p)"; cases "tl (digits (nat p))") auto
    with False show ?thesis by (simp add: show_int_def)
  qed
qed

lemma placePoints_unmapped:
  assumes "p < 1 \<or> 8 < p"
  shows "get_prop placePoints (show_int p) = Inr Undefined"
  unfolding placePoints_def get_prop.simps show_int_not_own [OF assms] show_int_not_inherited
  by simp

lemma placePoints_own:
  assumes "map_of objectPrototype k = None"
  shows "get_prop placePoints k = Inr Undefined
         \<or> (\<exists>n. 0 < n \<and> get_prop placePoints k = Inr (Num n))"
  using assms by (simp add: placePoints_def)

section \<open>The scoring function\<close>

text \<open>
  C1. For a result whose place is \<open>p\<close> in 1..8 the scoring function returns the value
  the table gives for \<open>p\<close> (100, 80, 65, 55, 45, 40, 36, 32), and of two such places
  the later one never scores more.
\<close>

theorem calculatePoints_table:
  assumes "get_prop r ''place'' = Inr (Num p)" and "get_prop r' ''place'' = Inr (Num q)"
    and "1 \<le> p" and "p \<le> q" and "q \<le> 8"
  shows "calculatePointsForResult r = Inr (Num ([100, 80, 65, 55, 45, 40, 36, 32] ! nat (p - 1)))
       \<and> calculatePointsForResult r' = Inr (Num ([100, 80, 65, 55, 45, 40, 36, 32] ! nat (q - 1)))
       \<and> ([100, 80, 65, 55, 45, 40, 36, 32] ! nat (q - 1) :: int)
           \<le> [100, 80, 65, 55, 45, 40, 36, 32] ! nat (p - 1)"
proof -
  have score: "calculatePointsForResult x
                 = Inr (Num ([100, 80, 65, 55, 45, 40, 36, 32] ! nat (n - 1)))"
    if "get_prop x ''place'' = Inr (Num n)" and "1 \<le> n" and "n \<le> 8" for x n
  proof -
    from that have "n \<in> {8, 7, 6, 5, 4, 3, 2, 1}"
      by simp arith
    with that(1) show ?thesis
      by (auto simp: calculatePointsForResult_def get_member_def show_int_def
            digits_below_ten placePoints_def js_add_def)
  qed
  from assms have "p \<in> {8, 7, 6, 5, 4, 3, 2, 1}" and "q \<in> {8, 7, 6, 5, 4, 3, 2, 1}"
    by (simp, arith)+
  with \<open>p \<le> q\<close>
  have "([100, 80, 65, 55, 45, 40, 36, 32] ! nat (q - 1) :: int)
          \<le> [100, 80, 65, 55, 45, 40, 36, 32] ! nat (p - 1)"
    by auto
  moreover from assms have "calculatePointsForResult r
      = Inr (Num ([100, 80, 65, 55, 45, 40, 36, 32] ! nat (p - 1)))"
    by (intro score) simp_all
  moreover from assms have "calculatePointsForResult r'
      = Inr (Num ([100, 80, 65, 55, 45, 40, 36, 32] ! nat (q - 1)))"
    by (intro score) simp_all
  ultimately show ?thesis by simp
qed

theorem calculatePoints_table_witness:
  "get_prop (Obj [(''athleteId'', Num 7), (''place'', Num 3)]) ''place'' = Inr (Num 3)
   \<and> get_prop (Obj [(''place'', Num 5)]) ''place'' = Inr (Num 5)
   \<and> calculatePointsForResult (Obj [(''athleteId'', Num 7), (''place'', Num 3)]) = Inr (Num 65)
   \<and> calculatePointsForResult (Obj [(''place'', Num 5)]) = Inr (Num 45)"
  using calculatePoints_table
          [of "Obj [(''athleteId'', Num 7), (''place'', Num 3)]" 3 "Obj [(''place'', Num 5)]" 5]
  by simp

text \<open>
  C2. For a place outside 1..8 (zero, negative, greater than 8) and for a place that
  is absent or null, the scoring function returns 0 and raises nothing.
\<close>

theorem calculatePoints_unmapped:
  assumes "get_prop r ''place'' = Inr place"
    and "place = Undefined \<or> place = Null \<or> (\<exists>p. place = Num p \<and> (p < 1 \<or> 8 < p))"
  shows "calculatePointsForResult r = Inr (Num 0)"
proof -
  from assms(2) have "get_member placePoints place = Inr Undefined"
    by (auto simp: get_member_def placePoints_unmapped) (simp_all add: placePoints_def objectPrototype_def)
  with assms(1) show ?thesis by (simp add: calculatePointsForResult_def)
qed

theorem calculatePoints_unmapped_witness:
  "get_prop (Obj [(''athleteId'', Num 4), (''place'', Num 9)]) ''place'' = Inr (Num 9)
   \<and> calculatePointsForResult (Obj [(''athleteId'', Num 4), (''place'', Num 9)]) = Inr (Num 0)
   \<and> get_prop (Obj [(''athleteId'', Num 4)]) ''place'' = Inr Undefined
   \<and> calculatePointsForResult (Obj [(''athleteId'', Num 4)]) = Inr (Num 0)"
  using calculatePoints_unmapped [of "Obj [(''athleteId'', Num 4), (''place'', Num 9)]" "Num 9"]
    calculatePoints_unmapped [of "Obj [(''athleteId'', Num 4)]" Undefined]
  by (simp add: objectPrototype_def)

text \<open>
  C3, as the code has it. The scoring function is a function of its argument alone
  and touches no state. For a result that is neither null nor undefined, so that its
  place can be read, and whose place converts to a property key that
  \<^verbatim>\<open>Object.prototype\<close> does not define, it returns a non-negative integer: one of
  the table's values or 0. Every place that is a number, a boolean, null or absent is
  of that kind.
\<close>

theorem calculatePoints_total:
  assumes "get_prop r ''place'' = Inr place"
    and "(\<exists>k. toString place = Inr k \<and> map_of objectPrototype k = None)
         \<or> place \<in> {Undefined, Null, NaN} \<union> range Bool \<union> range Num"
  shows "\<exists>n. 0 \<le> n \<and> calculatePointsForResult r = Inr (Num n)"
proof -
  from assms(2) obtain k where k: "toString place = Inr k" "map_of objectPrototype k = None"
    by (auto simp: show_int_not_inherited) (simp_all add: objectPrototype_def)
  from placePoints_own [OF k(2)] show ?thesis
  proof
    assume "get_prop placePoints k = Inr Undefined"
    with assms(1) k(1) show ?thesis
      by (simp add: calculatePointsForResult_def get_member_def)
  next
    assume "\<exists>n. 0 < n \<and> get_prop placePoints k = Inr (Num n)"
    then obtain n where "0 < n" "get_prop placePoints k = Inr (Num n)" by blast
    with assms(1) k(1) have "calculatePointsForResult r = Inr (Num n)"
      by (simp add: calculatePointsForResult_def get_member_def js_add_def)
    with \<open>0 < n\<close> show ?thesis by auto
  qed
qed

theorem calculatePoints_total_witness:
  "get_prop (Obj [(''place'', Str ''2'')]) ''place'' = Inr (Str ''2'')
   \<and> toString (Str ''2'') = Inr ''2'' \<and> map_of objectPrototype ''2'' = None
   \<and> (\<exists>n. 0 \<le> n \<and> calculatePointsForResult (Obj [(''place'', Str ''2'')]) = Inr (Num n))"
proof -
  have g: "get_prop (Obj [(''place'', Str ''2'')]) ''place'' = Inr (Str ''2'')" by simp
  have k: "toString (Str ''2'') = Inr ''2'' \<and> map_of objectPrototype ''2'' = None"
    by (simp add: objectPrototype_def)
  from calculatePoints_total [OF g] k g show ?thesis by blast
qed

theorem calculatePoints_total_counterexample:
  "calculatePointsForResult (Obj [(''athleteId'', Num 1), (''place'', Str ''toString'')])
     = Inr (Str ''0function toString() { [native code] }'')
   \<and> calculatePointsForResult (Obj [(''athleteId'', Num 1), (''place'', Obj [(''toString'', Num 1)])])
     = Inl TypeError
   \<and> calculatePointsForResult Null = Inl TypeError"
  by (simp add: calculatePointsForResult_def get_member_def placePoints_def objectPrototype_def
        js_add_def show_int_def digits_below_ten)

section \<open>The primary key of the athletes\<close>

text \<open>
  No two athletes share an id: true of the empty database, kept by the one handler
  that inserts athletes, and untouched by ingestion and registration.
\<close>

lemma fold_max_ge: "seq \<le> fold max ids seq \<and> (\<forall>x\<in>set ids. x \<le> fold max ids (seq :: int))"
proof (induction ids arbitrary: seq)
  case Nil
  then show ?case by simp
next
  case (Cons i ids)
  from Cons [of "max i seq"] show ?case by auto
qed

lemma next_id_fresh: "next_id ids seq \<notin> set ids"
  using fold_max_ge [of seq ids] by (fastforce simp: next_id_def)

lemma athletes_key_empty: "distinct (map a_id (athletes empty_store))"
  by (simp add: empty_store_def)

lemma athletes_key_post_athletes:
  assumes "distinct (map a_id (athletes s))" and "post_athletes s b = Inr (s', resp)"
  shows "distinct (map a_id (athletes s'))"
proof -
  from assms(2) have "map a_id (athletes s')
      = map a_id (athletes s) @ [next_id (map a_id (athletes s)) (athletes_seq s)]"
    by (auto simp: post_athletes_def insert_athlete_def Let_def split: sum.splits)
  with assms(1) next_id_fresh [of "map a_id (athletes s)" "athletes_seq s"]
  show ?thesis by simp
qed

section \<open>The standings query\<close>

lemma join_rows_fst: "x \<in> set (join_rows fss a) \<Longrightarrow> fst x = a"
  by (auto simp: join_rows_def split: list.splits)

lemma join_rows_not_Nil: "join_rows fss a \<noteq> []"
  by (simp add: join_rows_def split: list.splits)

lemma points_for_match:
  "points_for i f = (if fs_athleteId f = SqlInt i then sql_num (fs_points f) else 0)"
  by (cases "fs_athleteId f"; cases "fs_points f") auto

lemma ledger_total_rows:
  "ledger_total s i
     = sum_list (map sql_num
         (map fs_points (filter (\<lambda>f. fs_athleteId f = SqlInt i) (fantasy_scores s))))"
proof -
  have "ledger_total s i
          = (\<Sum>f\<leftarrow>fantasy_scores s. if fs_athleteId f = SqlInt i then sql_num (fs_points f) else 0)"
    unfolding ledger_total_def
    by (rule arg_cong [where f = sum_list], rule map_cong [OF refl], rule points_for_match)
  also have "\<dots> = sum_list (map (\<lambda>f. sql_num (fs_points f))
                        (filter (\<lambda>f. fs_athleteId f = SqlInt i) (fantasy_scores s)))"
    by (simp add: sum_list_map_filter')
  finally show ?thesis by (simp add: comp_def)
qed

lemma join_rows_points:
  "sum_list (map sql_num (map joined_points (join_rows (fantasy_scores s) a)))
     = ledger_total s (a_id a)"
  unfolding ledger_total_rows
  by (simp add: join_rows_def joined_points_def comp_def split: list.splits)

lemma ifnull_sql_sum: "ifnull (sql_sum vs) 0 = sum_list (map sql_num vs)"
proof -
  have "sum_list (map sql_num (filter (\<lambda>v. v \<noteq> SqlNull) vs))
          = sum_list (map sql_num vs)"
    by (induction vs) auto
  then show ?thesis
    by (auto simp: sql_sum_def ifnull_def Let_def)
qed

lemma filter_group_other:
  "a_id a \<noteq> g \<Longrightarrow> filter (\<lambda>x. a_id (fst x) = g) (join_rows fss a) = []"
  by (auto simp: filter_empty_conv dest: join_rows_fst)

lemma filter_group_same:
  "filter (\<lambda>x. a_id (fst x) = a_id a) (join_rows fss a) = join_rows fss a"
  by (auto simp: filter_id_conv dest: join_rows_fst)

lemma filter_group_concat:
  assumes "distinct (map a_id as)" and "a \<in> set as"
  shows "filter (\<lambda>x. a_id (fst x) = a_id a) (concat (map (join_rows fss) as)) = join_rows fss a"
  using assms
proof (induction as)
  case Nil
  then show ?case by simp
next
  case (Cons b bs)
  show ?case
  proof (cases "b = a")
    case True
    with Cons.prems have "\<forall>c\<in>set bs. a_id c \<noteq> a_id a" by (auto simp: image_iff)
    then have "filter (\<lambda>x. a_id (fst x) = a_id a) (concat (map (join_rows fss) bs)) = []"
      by (auto simp: filter_empty_conv dest: join_rows_fst)
    with True show ?thesis by (simp add: filter_group_same)
  next
    case False
    with Cons.prems have "a \<in> set bs" and "a_id b \<noteq> a_id a" and "distinct (map a_id bs)"
      by auto
    with Cons.IH show ?thesis by (simp add: filter_group_other)
  qed
qed

lemma left_join_ids: "set (map (\<lambda>x. a_id (fst x)) (left_join s)) = set (map a_id (athletes s))"
proof -
  have one: "(\<lambda>x. a_id (fst x)) ` set (join_rows (fantasy_scores s) a) = {a_id a}" for a
  proof -
    let ?J = "join_rows (fantasy_scores s) a"
    have mem: "hd ?J \<in> set ?J"
      by (rule hd_in_set [OF join_rows_not_Nil])
    have "a_id (fst (hd ?J)) \<in> (\<lambda>x. a_id (fst x)) ` set ?J"
      using mem by (rule imageI)
    then have "a_id a \<in> (\<lambda>x. a_id (fst x)) ` set ?J"
      by (simp only: join_rows_fst [OF mem])
    moreover have "\<forall>x\<in>set ?J. a_id (fst x) = a_id a"
      by (simp add: join_rows_fst)
    ultimately show ?thesis by blast
  qed
  have "set (map (\<lambda>x. a_id (fst x)) (left_join s))
          = (\<Union>a\<in>set (athletes s). (\<lambda>x. a_id (fst x)) ` set (join_rows (fantasy_scores s) a))"
    by (auto simp: left_join_def)
  also have "\<dots> = (\<Union>a\<in>set (athletes s). {a_id a})"
    by (simp only: one)
  finally show ?thesis by auto
qed

lemma group_row_athlete:
  assumes "distinct (map a_id (athletes s))" and "a \<in> set (athletes s)"
  shows "group_row (left_join s) (a_id a) = standing_of s a"
proof -
  have grp: "filter (\<lambda>x. a_id (fst x) = a_id a) (left_join s) = join_rows (fantasy_scores s) a"
    unfolding left_join_def by (rule filter_group_concat [OF assms])
  have "fst (hd (join_rows (fantasy_scores s) a)) = a"
    by (rule join_rows_fst [OF hd_in_set [OF join_rows_not_Nil]])
  then show ?thesis
    by (simp add: group_row_def grp standing_of_def ifnull_sql_sum join_rows_points
          del: map_map)
qed

lemma standings_mset:
  assumes "distinct (map a_id (athletes s))"
  shows "mset (get_standings s) = mset (map (standing_of s) (athletes s))"
proof -
  let ?groups = "remdups (map (\<lambda>x. a_id (fst x)) (left_join s))"
  have "set ?groups = set (map a_id (athletes s))"
    using left_join_ids [of s] by simp
  with assms have "mset ?groups = mset (map a_id (athletes s))"
    by (subst set_eq_iff_mset_eq_distinct [symmetric]) simp_all
  then have "image_mset (group_row (left_join s)) (mset ?groups)
               = image_mset (group_row (left_join s)) (mset (map a_id (athletes s)))"
    by (rule arg_cong)
  then have "mset (map (group_row (left_join s)) ?groups)
               = mset (map (group_row (left_join s)) (map a_id (athletes s)))"
    by (simp only: mset_map)
  also have "map (group_row (left_join s)) (map a_id (athletes s))
               = map (standing_of s) (athletes s)"
    using group_row_athlete [OF assms] by simp
  finally show ?thesis by (simp add: get_standings_def Let_def)
qed

lemma standings_sorted:
  "sorted_wrt (\<lambda>x y. st_totalPoints y \<le> st_totalPoints x) (get_standings s)"
proof -
  have "sorted (map (\<lambda>e. - st_totalPoints e) (get_standings s))"
    by (simp add: get_standings_def Let_def)
  then show ?thesis by (simp add: sorted_map)
qed


text \<open>
  C6. In every state of the store (the athletes' ids are a primary key, so no two
  rows share one) the standings hold exactly one entry per athlete, with the
  athlete's name and country and, as its total, the sum of the points of the
  athlete's score rows over all races: when those rows hold the integers \<open>ps\<close>
  the total is their sum, and it is 0 for an athlete with no score row. The totals
  descend.
\<close>

theorem standings_correct:
  assumes "distinct (map a_id (athletes s))"
  shows "mset (get_standings s) = mset (map (standing_of s) (athletes s))
       \<and> (\<forall>e\<in>set (get_standings s). \<forall>ps.
            map fs_points
              (filter (\<lambda>f. fs_athleteId f = SqlInt (st_athleteId e)) (fantasy_scores s))
              = map SqlInt ps
            \<longrightarrow> st_totalPoints e = sum_list ps)
       \<and> (\<forall>e\<in>set (get_standings s).
            (\<forall>f\<in>set (fantasy_scores s). fs_athleteId f \<noteq> SqlInt (st_athleteId e))
              \<longrightarrow> st_totalPoints e = 0)
       \<and> sorted_wrt (\<lambda>x y. st_totalPoints y \<le> st_totalPoints x) (get_standings s)"
proof -
  have entries: "set (get_standings s) = standing_of s ` set (athletes s)"
    using mset_eq_setD [OF standings_mset [OF assms]] by simp
  have total: "st_totalPoints e = ledger_total s (st_athleteId e)"
    if "e \<in> set (get_standings s)" for e
    using that unfolding entries by (auto simp: standing_of_def)
  have sum: "st_totalPoints e = sum_list ps"
    if "e \<in> set (get_standings s)"
      and "map fs_points
             (filter (\<lambda>f. fs_athleteId f = SqlInt (st_athleteId e)) (fantasy_scores s))
             = map SqlInt ps" for e ps
  proof -
    have "ledger_total s (st_athleteId e) = sum_list (map sql_num (map SqlInt ps))"
      unfolding ledger_total_rows by (simp only: that(2))
    also have "\<dots> = sum_list ps" by (simp add: comp_def)
    finally show ?thesis using total [OF that(1)] by simp
  qed
  have none: "st_totalPoints e = 0"
    if "e \<in> set (get_standings s)"
      and "\<forall>f\<in>set (fantasy_scores s). fs_athleteId f \<noteq> SqlInt (st_athleteId e)" for e
  proof -
    from that(2)
    have "filter (\<lambda>f. fs_athleteId f = SqlInt (st_athleteId e)) (fantasy_scores s) = []"
      by (simp add: filter_empty_conv)
    then have "map fs_points
                 (filter (\<lambda>f. fs_athleteId f = SqlInt (st_athleteId e)) (fantasy_scores s))
                 = map SqlInt []"
      by simp
    from sum [OF that(1) this] show ?thesis by simp
  qed
  from standings_mset [OF assms] sum none standings_sorted show ?thesis by blast
qed

section \<open>Ingestion\<close>

lemma stored_number_plain:
  "stored_number (Num n) = Inr (SqlInt n)"
  "stored_number (Bool b) = Inr (SqlInt (if b then 1 else 0))"
  "stored_number Null = Inr SqlNull"
  "stored_number Undefined = Inr SqlNull"
  by (simp_all add: stored_number_def numeric_affinity_def)








lemma insert_result_fields:
  "users (insert_result R a p t pts s) = users s"
  "athletes (insert_result R a p t pts s) = athletes s"
  "fantasy_scores (insert_result R a p t pts s) = fantasy_scores s"
  "fantasy_scores_seq (insert_result R a p t pts s) = fantasy_scores_seq s"
  "results (insert_result R a p t pts s)
     = results s @ [\<lparr>r_id = next_id (map r_id (results s)) (results_seq s), r_raceId = R,
                      r_athleteId = a, r_place = p, r_time = t, r_points = pts\<rparr>]"
  by (simp_all add: insert_result_def Let_def)

lemma insert_fantasy_score_fields:
  "users (insert_fantasy_score a R pts s) = users s"
  "athletes (insert_fantasy_score a R pts s) = athletes s"
  "results (insert_fantasy_score a R pts s) = results s"
  "results_seq (insert_fantasy_score a R pts s) = results_seq s"
  "fantasy_scores (insert_fantasy_score a R pts s)
     = fantasy_scores s @ [\<lparr>fs_id = next_id (map fs_id (fantasy_scores s)) (fantasy_scores_seq s),
                             fs_athleteId = a, fs_raceId = R, fs_points = pts\<rparr>]"
  by (simp_all add: insert_fantasy_score_def Let_def)

lemma result_key_row:
  "result_key \<lparr>r_id = i, r_raceId = R, r_athleteId = a, r_place = p, r_time = t, r_points = pts\<rparr>
     = (a, R, pts)"
  by (simp add: result_key_def)

lemma score_key_row:
  "score_key \<lparr>fs_id = i, fs_athleteId = a, fs_raceId = R, fs_points = pts\<rparr> = (a, R, pts)"
  by (simp add: score_key_def)

text \<open>One turn of the loop, when it does not throw.\<close>

lemma forEach_result_step:
  assumes "forEach_result R (e # es) s = Inr s'"
  shows "\<exists>a' R' p' t' pts'.
           entry_key R e = Some (a', R', pts')
         \<and> forEach_result R es
              (insert_fantasy_score a' R' pts' (insert_result R' a' p' t' pts' s)) = Inr s'"
  using assms by (auto simp: entry_key_def split: sum.splits) blast

text \<open>
  What one pass of the loop leaves: the old rows, then one result row and one score
  row per entry, in the order of the entries, each with the athlete, race and points
  of its entry and an id no older row has.
\<close>

lemma forEach_result_rows:
  assumes "forEach_result R es s = Inr s'"
  shows "\<exists>nr nf. results s' = results s @ nr \<and> fantasy_scores s' = fantasy_scores s @ nf
           \<and> map (\<lambda>r. Some (result_key r)) nr = map (entry_key R) es
           \<and> map (\<lambda>f. Some (score_key f)) nf = map (entry_key R) es
           \<and> distinct (map r_id nr) \<and> set (map r_id nr) \<inter> set (map r_id (results s)) = {}
           \<and> distinct (map fs_id nf)
           \<and> set (map fs_id nf) \<inter> set (map fs_id (fantasy_scores s)) = {}
           \<and> users s' = users s \<and> athletes s' = athletes s"
  using assms
proof (induction es arbitrary: s)
  case Nil
  then show ?case by simp
next
  case (Cons e es)
  from forEach_result_step [OF Cons.prems] obtain a' R' p' t' pts' where
    key: "entry_key R e = Some (a', R', pts')"
    and step: "forEach_result R es
                 (insert_fantasy_score a' R' pts' (insert_result R' a' p' t' pts' s)) = Inr s'"
    by blast
  let ?r = "\<lparr>r_id = next_id (map r_id (results s)) (results_seq s), r_raceId = R',
              r_athleteId = a', r_place = p', r_time = t', r_points = pts'\<rparr>"
  let ?f = "\<lparr>fs_id = next_id (map fs_id (fantasy_scores s)) (fantasy_scores_seq s),
              fs_athleteId = a', fs_raceId = R', fs_points = pts'\<rparr>"
  from Cons.IH [OF step] obtain nr nf where
    rows: "results s' = (results s @ [?r]) @ nr" "fantasy_scores s' = (fantasy_scores s @ [?f]) @ nf"
    and keys: "map (\<lambda>r. Some (result_key r)) nr = map (entry_key R) es"
      "map (\<lambda>f. Some (score_key f)) nf = map (entry_key R) es"
    and ids: "distinct (map r_id nr)"
      "set (map r_id nr) \<inter> set (map r_id (results s @ [?r])) = {}"
      "distinct (map fs_id nf)"
      "set (map fs_id nf) \<inter> set (map fs_id (fantasy_scores s @ [?f])) = {}"
    and rest: "users s' = users s" "athletes s' = athletes s"
    by (auto simp: insert_result_fields insert_fantasy_score_fields)
  have fresh: "r_id ?r \<notin> set (map r_id (results s))"
    "fs_id ?f \<notin> set (map fs_id (fantasy_scores s))"
    using next_id_fresh [of "map r_id (results s)" "results_seq s"]
      next_id_fresh [of "map fs_id (fantasy_scores s)" "fantasy_scores_seq s"]
    by simp_all
  show ?case
  proof (intro exI [of _ "?r # nr"] exI [of _ "?f # nf"] conjI)
    show "results s' = results s @ ?r # nr" using rows(1) by simp
    show "fantasy_scores s' = fantasy_scores s @ ?f # nf" using rows(2) by simp
    show "map (\<lambda>r. Some (result_key r)) (?r # nr) = map (entry_key R) (e # es)"
      using keys(1) key by (simp add: result_key_row)
    show "map (\<lambda>f. Some (score_key f)) (?f # nf) = map (entry_key R) (e # es)"
      using keys(2) key by (simp add: score_key_row)
    show "distinct (map r_id (?r # nr))" using ids(1,2) by auto
    show "set (map r_id (?r # nr)) \<inter> set (map r_id (results s)) = {}"
      using ids(2) fresh(1) by auto
    show "distinct (map fs_id (?f # nf))" using ids(3,4) by auto
    show "set (map fs_id (?f # nf)) \<inter> set (map fs_id (fantasy_scores s)) = {}"
      using ids(4) fresh(2) by auto
    show "users s' = users s" by (rule rest(1))
    show "athletes s' = athletes s" by (rule rest(2))
  qed
qed

lemma post_results_ok:
  assumes "post_results s b = Inr (s', Response 200 m)"
  shows "\<exists>R rs. get_prop b ''raceId'' = Inr R \<and> get_prop b ''results'' = Inr (Arr rs)
           \<and> truthy R \<and> forEach_result R rs s = Inr s'"
proof -
  from assms obtain R x where g: "get_prop b ''raceId'' = Inr R" "get_prop b ''results'' = Inr x"
    by (auto simp: post_results_def split: sum.splits)
  with assms have v: "truthy R" "isArray x"
    by (auto simp: post_results_def split: sum.splits if_splits)
  then obtain rs where "x = Arr rs" by (cases x) auto
  with assms g v show ?thesis
    by (auto simp: post_results_def split: sum.splits)
qed

text \<open>
  C4, as the code has it. The handler answers 400 and leaves the store as it was
  exactly when the race reference is falsy (absent, null, 0, false or the empty
  string) or the results field is not an array; a request that passes the check is
  never answered 400.
\<close>

theorem post_results_validation:
  assumes "get_prop b ''raceId'' = Inr R" and "get_prop b ''results'' = Inr rs"
  shows "(\<not> truthy R \<or> \<not> isArray rs
            \<longrightarrow> post_results s b = Inr (s, Response 400 (message ''raceId + results[] required'')))
       \<and> (truthy R \<and> isArray rs
            \<longrightarrow> (\<forall>s' resp. post_results s b = Inr (s', resp) \<longrightarrow> status resp = 200))"
  using assms by (auto simp: post_results_def split: sum.splits)

theorem post_results_validation_witness:
  "get_prop (Obj [(''results'', Arr [])]) ''raceId'' = Inr Undefined
   \<and> get_prop (Obj [(''results'', Arr [])]) ''results'' = Inr (Arr [])
   \<and> \<not> truthy Undefined
   \<and> post_results empty_store (Obj [(''results'', Arr [])])
       = Inr (empty_store, Response 400 (message ''raceId + results[] required''))
   \<and> get_prop (Obj [(''raceId'', Num 3), (''results'', Arr [])]) ''raceId'' = Inr (Num 3)
   \<and> get_prop (Obj [(''raceId'', Num 3), (''results'', Arr [])]) ''results'' = Inr (Arr [])
   \<and> truthy (Num 3) \<and> isArray (Arr [])
   \<and> post_results empty_store (Obj [(''raceId'', Num 3), (''results'', Arr [])])
       = Inr (empty_store, Response 200 (message ''Results stored and points calculated''))
   \<and> status (Response 200 (message ''Results stored and points calculated'')) = 200"
proof -
  have a: "get_prop (Obj [(''results'', Arr [])]) ''raceId'' = Inr Undefined"
    and b: "get_prop (Obj [(''results'', Arr [])]) ''results'' = Inr (Arr [])"
    and c: "get_prop (Obj [(''raceId'', Num 3), (''results'', Arr [])]) ''raceId'' = Inr (Num 3)"
    and d: "get_prop (Obj [(''raceId'', Num 3), (''results'', Arr [])]) ''results'' = Inr (Arr [])"
    by (simp_all add: objectPrototype_def)
  have e: "post_results empty_store (Obj [(''raceId'', Num 3), (''results'', Arr [])])
       = Inr (empty_store, Response 200 (message ''Results stored and points calculated''))"
    by (simp add: post_results_def)
  from post_results_validation [OF a b, of empty_store]
    post_results_validation [OF c d, of empty_store] a b c d e
  show ?thesis by simp
qed

theorem post_results_validation_counterexample:
  "get_prop (Obj [(''raceId'', Num 0), (''results'', Arr [])]) ''raceId'' = Inr (Num 0)
   \<and> get_prop (Obj [(''raceId'', Num 0), (''results'', Arr [])]) ''results'' = Inr (Arr [])
   \<and> isArray (Arr [])
   \<and> post_results empty_store (Obj [(''raceId'', Num 0), (''results'', Arr [])])
       = Inr (empty_store, Response 400 (message ''raceId + results[] required''))"
  by (simp add: post_results_def)



lemma first_place_scores:
  "calculatePointsForResult (Obj [(''athleteId'', Num 1), (''place'', Num 1)]) = Inr (Num 100)"
  "calculatePointsForResult (Obj [(''athleteId'', Num 2), (''place'', Num 2)]) = Inr (Num 80)"
  by (simp_all add: calculatePointsForResult_def get_member_def show_int_def digits_below_ten
        placePoints_def js_add_def)

text \<open>
  C5, as the code has it. A successful ingestion adds exactly one result row and one
  score row per entry of the batch, in the order of the entries, with ids no older
  row has; the k-th result row and the k-th score row both carry the athlete of the
  k-th entry, the race of the batch and the points the scoring function gives that
  entry. So every result row it adds has at least one score row it adds with the same
  athlete, race and points, and for each such triple there are as many score rows as
  result rows: more than one when the batch repeats an entry. If the two tables
  agreed row by row before, they do after.
\<close>

theorem ingestion_pairs_rows:
  assumes "post_results s b = Inr (s', Response 200 m)"
  shows "\<exists>R es nr nf.
           get_prop b ''raceId'' = Inr R \<and> get_prop b ''results'' = Inr (Arr es)
         \<and> results s' = results s @ nr \<and> fantasy_scores s' = fantasy_scores s @ nf
         \<and> length nr = length es \<and> length nf = length es
         \<and> map (\<lambda>r. Some (result_key r)) nr = map (entry_key R) es
         \<and> map (\<lambda>f. Some (score_key f)) nf = map (entry_key R) es
         \<and> distinct (map r_id nr) \<and> set (map r_id nr) \<inter> set (map r_id (results s)) = {}
         \<and> distinct (map fs_id nf)
         \<and> set (map fs_id nf) \<inter> set (map fs_id (fantasy_scores s)) = {}
         \<and> map result_key nr = map score_key nf
         \<and> (\<forall>r\<in>set nr. \<exists>f\<in>set nf. score_key f = result_key r)
         \<and> (\<forall>k. length (filter (\<lambda>r. result_key r = k) nr)
                  = length (filter (\<lambda>f. score_key f = k) nf))
         \<and> (map result_key (results s) = map score_key (fantasy_scores s)
              \<longrightarrow> map result_key (results s') = map score_key (fantasy_scores s'))"
proof -
  from post_results_ok [OF assms] obtain R es where
    body: "get_prop b ''raceId'' = Inr R" "get_prop b ''results'' = Inr (Arr es)"
    and loop: "forEach_result R es s = Inr s'"
    by blast
  from forEach_result_rows [OF loop] obtain nr nf where
    rows: "results s' = results s @ nr" "fantasy_scores s' = fantasy_scores s @ nf"
    and entries: "map (\<lambda>r. Some (result_key r)) nr = map (entry_key R) es"
      "map (\<lambda>f. Some (score_key f)) nf = map (entry_key R) es"
    and ids: "distinct (map r_id nr)" "set (map r_id nr) \<inter> set (map r_id (results s)) = {}"
      "distinct (map fs_id nf)" "set (map fs_id nf) \<inter> set (map fs_id (fantasy_scores s)) = {}"
    by blast
  from entries have len: "length nr = length es" "length nf = length es"
    by (metis length_map)+
  from entries
  have "map (\<lambda>r. Some (result_key r)) nr = map (\<lambda>f. Some (score_key f)) nf"
    by simp
  then have "map the (map (\<lambda>r. Some (result_key r)) nr)
               = map the (map (\<lambda>f. Some (score_key f)) nf)"
    by (rule arg_cong)
  then have keys: "map result_key nr = map score_key nf"
    by (simp add: comp_def)
  have some: "\<exists>f\<in>set nf. score_key f = result_key r" if "r \<in> set nr" for r
  proof -
    from that have "result_key r \<in> set (map result_key nr)" by simp
    then have "result_key r \<in> set (map score_key nf)" by (simp only: keys)
    then show ?thesis by auto
  qed
  have count: "length (filter (\<lambda>r. result_key r = k) nr)
                 = length (filter (\<lambda>f. score_key f = k) nf)" for k
  proof -
    have "length (filter (\<lambda>r. result_key r = k) nr)
            = length (filter (\<lambda>x. x = k) (map result_key nr))"
      by (simp add: filter_map comp_def)
    also have "\<dots> = length (filter (\<lambda>x. x = k) (map score_key nf))"
      by (simp only: keys)
    also have "\<dots> = length (filter (\<lambda>f. score_key f = k) nf)"
      by (simp add: filter_map comp_def)
    finally show ?thesis .
  qed
  have inv: "map result_key (results s') = map score_key (fantasy_scores s')"
    if "map result_key (results s) = map score_key (fantasy_scores s)"
    using that rows keys by simp
  show ?thesis
    apply (rule exI [of _ R], rule exI [of _ es], rule exI [of _ nr], rule exI [of _ nf])
    using body rows len entries ids keys some count inv by blast
qed

theorem ingestion_pairs_rows_witness:
  "post_results empty_store
     (Obj [(''raceId'', Num 1),
           (''results'', Arr [Obj [(''athleteId'', Num 1), (''place'', Num 1)],
                              Obj [(''athleteId'', Num 2), (''place'', Num 2)]])])
     = Inr (empty_store
              \<lparr>results :=
                 [\<lparr>r_id = 1, r_raceId = SqlInt 1, r_athleteId = SqlInt 1, r_place = SqlInt 1,
                   r_time = SqlNull, r_points = SqlInt 100\<rparr>,
                  \<lparr>r_id = 2, r_raceId = SqlInt 1, r_athleteId = SqlInt 2, r_place = SqlInt 2,
                   r_time = SqlNull, r_points = SqlInt 80\<rparr>],
               results_seq := 2,
               fantasy_scores :=
                 [\<lparr>fs_id = 1, fs_athleteId = SqlInt 1, fs_raceId = SqlInt 1,
                   fs_points = SqlInt 100\<rparr>,
                  \<lparr>fs_id = 2, fs_athleteId = SqlInt 2, fs_raceId = SqlInt 1,
                   fs_points = SqlInt 80\<rparr>],
               fantasy_scores_seq := 2\<rparr>,
            Response 200 (message ''Results stored and points calculated''))
   \<and> (\<exists>nr nf.
         [\<lparr>r_id = 1, r_raceId = SqlInt 1, r_athleteId = SqlInt 1, r_place = SqlInt 1,
           r_time = SqlNull, r_points = SqlInt 100\<rparr>,
          \<lparr>r_id = 2, r_raceId = SqlInt 1, r_athleteId = SqlInt 2, r_place = SqlInt 2,
           r_time = SqlNull, r_points = SqlInt 80\<rparr>] = results empty_store @ nr
       \<and> [\<lparr>fs_id = 1, fs_athleteId = SqlInt 1, fs_raceId = SqlInt 1, fs_points = SqlInt 100\<rparr>,
          \<lparr>fs_id = 2, fs_athleteId = SqlInt 2, fs_raceId = SqlInt 1, fs_points = SqlInt 80\<rparr>]
           = fantasy_scores empty_store @ nf
       \<and> length nr = 2 \<and> length nf = 2
       \<and> map result_key nr = map score_key nf)"
proof -
  let ?b = "Obj [(''raceId'', Num 1),
           (''results'', Arr [Obj [(''athleteId'', Num 1), (''place'', Num 1)],
                              Obj [(''athleteId'', Num 2), (''place'', Num 2)]])]"
  let ?s' = "empty_store
              \<lparr>results :=
                 [\<lparr>r_id = 1, r_raceId = SqlInt 1, r_athleteId = SqlInt 1, r_place = SqlInt 1,
                   r_time = SqlNull, r_points = SqlInt 100\<rparr>,
                  \<lparr>r_id = 2, r_raceId = SqlInt 1, r_athleteId = SqlInt 2, r_place = SqlInt 2,
                   r_time = SqlNull, r_points = SqlInt 80\<rparr>],
               results_seq := 2,
               fantasy_scores :=
                 [\<lparr>fs_id = 1, fs_athleteId = SqlInt 1, fs_raceId = SqlInt 1,
                   fs_points = SqlInt 100\<rparr>,
                  \<lparr>fs_id = 2, fs_athleteId = SqlInt 2, fs_raceId = SqlInt 1,
                   fs_points = SqlInt 80\<rparr>],
               fantasy_scores_seq := 2\<rparr>"
  have run: "post_results empty_store ?b
               = Inr (?s', Response 200 (message ''Results stored and points calculated''))"
    by (simp add: post_results_def first_place_scores objectPrototype_def js_or_def
          stored_number_plain insert_result_def insert_fantasy_score_def next_id_def
          empty_store_def)
  from ingestion_pairs_rows [OF run] obtain R es nr nf where
    "get_prop ?b ''results'' = Inr (Arr es)"
    "results ?s' = results empty_store @ nr"
    "fantasy_scores ?s' = fantasy_scores empty_store @ nf"
    "length nr = length es" "length nf = length es"
    "map result_key nr = map score_key nf"
    by blast
  then have "results ?s' = results empty_store @ nr
      \<and> fantasy_scores ?s' = fantasy_scores empty_store @ nf
      \<and> length nr = 2 \<and> length nf = 2 \<and> map result_key nr = map score_key nf"
    by auto
  then have "\<exists>nr nf. results ?s' = results empty_store @ nr
      \<and> fantasy_scores ?s' = fantasy_scores empty_store @ nf
      \<and> length nr = 2 \<and> length nf = 2 \<and> map result_key nr = map score_key nf"
    by blast
  with run show ?thesis by (simp add: empty_store_def)
qed

theorem ingestion_pairs_rows_counterexample:
  "post_results empty_store
     (Obj [(''raceId'', Num 1),
           (''results'', Arr [Obj [(''athleteId'', Num 1), (''place'', Num 1)],
                              Obj [(''athleteId'', Num 1), (''place'', Num 1)]])])
     = Inr (empty_store
              \<lparr>results :=
                 [\<lparr>r_id = 1, r_raceId = SqlInt 1, r_athleteId = SqlInt 1, r_place = SqlInt 1,
                   r_time = SqlNull, r_points = SqlInt 100\<rparr>,
                  \<lparr>r_id = 2, r_raceId = SqlInt 1, r_athleteId = SqlInt 1, r_place = SqlInt 1,
                   r_time = SqlNull, r_points = SqlInt 100\<rparr>],
               results_seq := 2,
               fantasy_scores :=
                 [\<lparr>fs_id = 1, fs_athleteId = SqlInt 1, fs_raceId = SqlInt 1,
                   fs_points = SqlInt 100\<rparr>,
                  \<lparr>fs_id = 2, fs_athleteId = SqlInt 1, fs_raceId = SqlInt 1,
                   fs_points = SqlInt 100\<rparr>],
               fantasy_scores_seq := 2\<rparr>,
            Response 200 (message ''Results stored and points calculated''))
   \<and> score_key \<lparr>fs_id = 1, fs_athleteId = SqlInt 1, fs_raceId = SqlInt 1, fs_points = SqlInt 100\<rparr>
       = result_key \<lparr>r_id = 1, r_raceId = SqlInt 1, r_athleteId = SqlInt 1, r_place = SqlInt 1,
                      r_time = SqlNull, r_points = SqlInt 100\<rparr>
   \<and> score_key \<lparr>fs_id = 2, fs_athleteId = SqlInt 1, fs_raceId = SqlInt 1, fs_points = SqlInt 100\<rparr>
       = result_key \<lparr>r_id = 1, r_raceId = SqlInt 1, r_athleteId = SqlInt 1, r_place = SqlInt 1,
                      r_time = SqlNull, r_points = SqlInt 100\<rparr>
   \<and> \<lparr>fs_id = 1, fs_athleteId = SqlInt 1, fs_raceId = SqlInt 1, fs_points = SqlInt 100\<rparr>
       \<noteq> \<lparr>fs_id = 2, fs_athleteId = SqlInt 1, fs_raceId = SqlInt 1, fs_points = SqlInt 100\<rparr>"
  by (simp add: post_results_def first_place_scores objectPrototype_def js_or_def
        stored_number_plain insert_result_def insert_fantasy_score_def next_id_def
        empty_store_def result_key_def score_key_def)

theorem standings_correct_witness:
  "distinct (map a_id (athletes example_store))
   \<and> mset (get_standings example_store)
       = mset (map (standing_of example_store) (athletes example_store))
   \<and> \<lparr>st_athleteId = 1, st_name = SqlText ''Jane Doe'', st_country = SqlText ''USA'',
       st_totalPoints = 145\<rparr> \<in> set (get_standings example_store)
   \<and> \<lparr>st_athleteId = 2, st_name = SqlText ''Eva Moser'', st_country = SqlText ''AUT'',
       st_totalPoints = 100\<rparr> \<in> set (get_standings example_store)
   \<and> \<lparr>st_athleteId = 3, st_name = SqlText ''Lea Roy'', st_country = SqlText ''FRA'',
       st_totalPoints = 0\<rparr> \<in> set (get_standings example_store)
   \<and> sorted_wrt (\<lambda>x y. st_totalPoints y \<le> st_totalPoints x) (get_standings example_store)"
proof -
  have d: "distinct (map a_id (athletes example_store))"
    by (simp add: example_store_def)
  note c = standings_correct [OF d]
  from c have m: "mset (get_standings example_store)
       = mset (map (standing_of example_store) (athletes example_store))"
    and srt: "sorted_wrt (\<lambda>x y. st_totalPoints y \<le> st_totalPoints x) (get_standings example_store)"
    by blast+
  have "set (get_standings example_store)
          = standing_of example_store ` set (athletes example_store)"
    using mset_eq_setD [OF m] by simp
  moreover have "map (standing_of example_store) (athletes example_store)
    = [\<lparr>st_athleteId = 1, st_name = SqlText ''Jane Doe'', st_country = SqlText ''USA'',
         st_totalPoints = 145\<rparr>,
       \<lparr>st_athleteId = 2, st_name = SqlText ''Eva Moser'', st_country = SqlText ''AUT'',
         st_totalPoints = 100\<rparr>,
       \<lparr>st_athleteId = 3, st_name = SqlText ''Lea Roy'', st_country = SqlText ''FRA'',
         st_totalPoints = 0\<rparr>]"
    by (simp add: standing_of_def ledger_total_def example_store_def)
  ultimately have "set (get_standings example_store)
    = set [\<lparr>st_athleteId = 1, st_name = SqlText ''Jane Doe'', st_country = SqlText ''USA'',
         st_totalPoints = 145\<rparr>,
       \<lparr>st_athleteId = 2, st_name = SqlText ''Eva Moser'', st_country = SqlText ''AUT'',
         st_totalPoints = 100\<rparr>,
       \<lparr>st_athleteId = 3, st_name = SqlText ''Lea Roy'', st_country = SqlText ''FRA'',
         st_totalPoints = 0\<rparr>]"
    by (metis set_map)
  with d m srt show ?thesis by simp
qed






section \<open>Authentication and roles\<close>





section \<open>Registration\<close>

lemma insert_user_users:
  "insert_user email h name role s = Some (s', i)
     \<Longrightarrow> users s' = users s @ [\<lparr>u_id = i, u_email = email, u_password = h, u_name = name,
                                     u_role = role\<rparr>]"
  by (auto simp: insert_user_def Let_def split: if_splits)

lemma register_cases:
  assumes "register hash generateToken s b = Inr (s', resp)"
  shows "(s' = s \<and> status resp = 400)
       \<or> (\<exists>i email h name.
             users s' = users s @ [\<lparr>u_id = i, u_email = email, u_password = h, u_name = name,
                                     u_role = ''user''\<rparr>]
           \<and> get_prop b ''email'' = Inr email
           \<and> resp = Response 200
                      (Obj [(''token'',
                             Str (generateToken
                                    (Obj [(''id'', Num i), (''email'', email),
                                          (''role'', Str ''user'')])))]))"
  using assms
  by (auto simp: register_def split: sum.splits if_splits option.splits
      dest!: insert_user_users)

lemma register_admins:
  assumes "register hash generateToken s b = Inr (s', resp)"
    and "u \<in> set (users s')" and "u_role u = ''admin''"
  shows "u \<in> set (users s)"
  using register_cases [OF assms(1)] assms(2,3) by auto

lemma register_all_admins:
  assumes "u \<in> set (users (register_all hash generateToken s bs))" and "u_role u = ''admin''"
  shows "u \<in> set (users s)"
  using assms
proof (induction bs arbitrary: s)
  case Nil
  then show ?case by simp
next
  case (Cons b bs)
  show ?case
  proof (cases "register hash generateToken s b")
    case (Inl e)
    with Cons show ?thesis by simp
  next
    case (Inr x)
    obtain s' resp where x: "x = (s', resp)" by (cases x)
    with Inr Cons.prems have "u \<in> set (users (register_all hash generateToken s' bs))"
      by simp
    from Cons.IH [OF this Cons.prems(2)] have "u \<in> set (users s')" .
    with Inr x Cons.prems(2) show ?thesis by (auto dest: register_admins)
  qed
qed

lemma bootstrap_admins:
  "u \<in> set (users (bootstrap h empty_store)) \<Longrightarrow> u_email u = Str ''admin@sbx.local''"
  by (simp add: bootstrap_def empty_store_def insert_user_def Let_def)

text \<open>
  C10. A registration that stores a row stores it with role user and answers with a
  token signed over a payload whose role is user; a registration that stores nothing
  leaves the users as they were. So after any sequence of registrations every admin
  row is one that was there before, and from the freshly bootstrapped database the
  only admin is the default one.
\<close>

theorem register_role_user:
  "(\<forall>s' resp. register hash generateToken s b = Inr (s', resp) \<longrightarrow>
       (s' = s \<and> status resp = 400)
     \<or> (\<exists>i email h name.
           users s' = users s @ [\<lparr>u_id = i, u_email = email, u_password = h, u_name = name,
                                   u_role = ''user''\<rparr>]
         \<and> resp = Response 200
                    (Obj [(''token'',
                           Str (generateToken
                                  (Obj [(''id'', Num i), (''email'', email),
                                        (''role'', Str ''user'')])))])))
   \<and> (\<forall>u\<in>set (users (register_all hash generateToken s bs)).
        u_role u = ''admin'' \<longrightarrow> u \<in> set (users s))
   \<and> (\<forall>u\<in>set (users (register_all hash generateToken (bootstrap h0 empty_store) bs)).
        u_role u = ''admin'' \<longrightarrow> u_email u = Str ''admin@sbx.local'')"
proof (intro conjI allI impI ballI)
  fix s' resp
  assume "register hash generateToken s b = Inr (s', resp)"
  from register_cases [OF this]
  show "(s' = s \<and> status resp = 400)
     \<or> (\<exists>i email h name.
           users s' = users s @ [\<lparr>u_id = i, u_email = email, u_password = h, u_name = name,
                                   u_role = ''user''\<rparr>]
         \<and> resp = Response 200
                    (Obj [(''token'',
                           Str (generateToken
                                  (Obj [(''id'', Num i), (''email'', email),
                                        (''role'', Str ''user'')])))]))"
    by blast
next
  fix u
  assume "u \<in> set (users (register_all hash generateToken s bs))" "u_role u = ''admin''"
  then show "u \<in> set (users s)" by (rule register_all_admins)
next
  fix u
  assume "u \<in> set (users (register_all hash generateToken (bootstrap h0 empty_store) bs))"
    "u_role u = ''admin''"
  then have "u \<in> set (users (bootstrap h0 empty_store))" by (rule register_all_admins)
  then show "u_email u = Str ''admin@sbx.local''" by (rule bootstrap_admins)
qed

theorem register_role_user_witness:
  "register (\<lambda>p. Inr ''$2b$10$hash'')
     (\<lambda>p. case get_prop p ''role'' of Inr (Str r) \<Rightarrow> ''role='' @ r | _ \<Rightarrow> [])
     (bootstrap ''$2b$10$admin'' empty_store)
     (Obj [(''email'', Str ''a@x.com''), (''password'', Str ''pw123''), (''role'', Str ''admin'')])
     = Inr (empty_store
              \<lparr>users :=
                 [\<lparr>u_id = 1, u_email = Str ''admin@sbx.local'', u_password = ''$2b$10$admin'',
                   u_name = Str ''Administrator'', u_role = ''admin''\<rparr>,
                  \<lparr>u_id = 2, u_email = Str ''a@x.com'', u_password = ''$2b$10$hash'',
                   u_name = Str [], u_role = ''user''\<rparr>],
               users_seq := 2\<rparr>,
            Response 200 (Obj [(''token'', Str ''role=user'')]))
   \<and> \<lparr>u_id = 1, u_email = Str ''admin@sbx.local'', u_password = ''$2b$10$admin'',
       u_name = Str ''Administrator'', u_role = ''admin''\<rparr>
       \<in> set (users (register_all (\<lambda>p. Inr ''$2b$10$hash'')
                        (\<lambda>p. case get_prop p ''role'' of Inr (Str r) \<Rightarrow> ''role='' @ r | _ \<Rightarrow> [])
                        (bootstrap ''$2b$10$admin'' empty_store)
                        [Obj [(''email'', Str ''a@x.com''), (''password'', Str ''pw123''),
                              (''role'', Str ''admin'')]]))
   \<and> \<lparr>u_id = 1, u_email = Str ''admin@sbx.local'', u_password = ''$2b$10$admin'',
       u_name = Str ''Administrator'', u_role = ''admin''\<rparr>
       \<in> set (users (bootstrap ''$2b$10$admin'' empty_store))
   \<and> (\<exists>i email h name.
         [\<lparr>u_id = 1, u_email = Str ''admin@sbx.local'', u_password = ''$2b$10$admin'',
           u_name = Str ''Administrator'', u_role = ''admin''\<rparr>,
          \<lparr>u_id = 2, u_email = Str ''a@x.com'', u_password = ''$2b$10$hash'',
           u_name = Str [], u_role = ''user''\<rparr>]
           = users (bootstrap ''$2b$10$admin'' empty_store)
               @ [\<lparr>u_id = i, u_email = email, u_password = h, u_name = name, u_role = ''user''\<rparr>])"
proof -
  let ?hash = "\<lambda>p :: js. Inr ''$2b$10$hash'' :: error + string"
  let ?sign = "\<lambda>p. case get_prop p ''role'' of Inr (Str r) \<Rightarrow> ''role='' @ r | _ \<Rightarrow> []"
  let ?b = "Obj [(''email'', Str ''a@x.com''), (''password'', Str ''pw123''), (''role'', Str ''admin'')]"
  let ?admin = "\<lparr>u_id = 1, u_email = Str ''admin@sbx.local'', u_password = ''$2b$10$admin'',
       u_name = Str ''Administrator'', u_role = ''admin''\<rparr>"
  let ?s' = "empty_store
              \<lparr>users :=
                 [?admin,
                  \<lparr>u_id = 2, u_email = Str ''a@x.com'', u_password = ''$2b$10$hash'',
                   u_name = Str [], u_role = ''user''\<rparr>],
               users_seq := 2\<rparr>"
  have run: "register ?hash ?sign (bootstrap ''$2b$10$admin'' empty_store) ?b
               = Inr (?s', Response 200 (Obj [(''token'', Str ''role=user'')]))"
    by (simp add: register_def bootstrap_def empty_store_def insert_user_def next_id_def
          objectPrototype_def js_or_def)
  have mem: "?admin \<in> set (users (register_all ?hash ?sign
                                     (bootstrap ''$2b$10$admin'' empty_store) [?b]))"
    by (simp add: run)
  note inst = register_role_user
         [of ?hash ?sign "bootstrap ''$2b$10$admin'' empty_store" ?b "[?b]" "''$2b$10$admin''"]
  from inst mem have before: "?admin \<in> set (users (bootstrap ''$2b$10$admin'' empty_store))"
    by (elim conjE) (drule bspec [where x = ?admin], assumption, simp)
  from inst run
  have "(?s' = bootstrap ''$2b$10$admin'' empty_store
          \<and> status (Response 200 (Obj [(''token'', Str ''role=user'')])) = 400)
      \<or> (\<exists>i email h name.
           users ?s' = users (bootstrap ''$2b$10$admin'' empty_store)
               @ [\<lparr>u_id = i, u_email = email, u_password = h, u_name = name, u_role = ''user''\<rparr>]
         \<and> Response 200 (Obj [(''token'', Str ''role=user'')])
             = Response 200
                    (Obj [(''token'',
                           Str (?sign (Obj [(''id'', Num i), (''email'', email),
                                            (''role'', Str ''user'')])))]))"
    by blast
  then have "\<exists>i email h name.
           users ?s' = users (bootstrap ''$2b$10$admin'' empty_store)
               @ [\<lparr>u_id = i, u_email = email, u_password = h, u_name = name, u_role = ''user''\<rparr>]"
    by auto
  then have new: "\<exists>i email h name.
         [?admin,
          \<lparr>u_id = 2, u_email = Str ''a@x.com'', u_password = ''$2b$10$hash'',
           u_name = Str [], u_role = ''user''\<rparr>]
           = users (bootstrap ''$2b$10$admin'' empty_store)
               @ [\<lparr>u_id = i, u_email = email, u_password = h, u_name = name, u_role = ''user''\<rparr>]"
    by (simp add: empty_store_def)
  from run mem before new show ?thesis by blast
qed

end
